theory Spec2Isabelle
  imports Main "HOL-Library.Sublist" "HOL-Library.Word" "HOL-Library.Code_Target_Nat"
begin

section \<open>JavaScript values and strings\<close>

text \<open>
  The client is TypeScript, so at run time its arguments are JavaScript values whatever
  the declared types say. \<open>jsval\<close> covers the primitive values \<open>undefined\<close>, \<open>null\<close>,
  booleans, strings and numbers. \<open>Num n\<close> is the integer that the 54-bit word \<open>n\<close> reads
  as when signed: the integers from \<open>-2^53\<close> to \<open>2^53 - 1\<close>, each of which is a
  JavaScript number that prints as its plain decimal digits (\<open>0\<close> stands for both zeros).
  \<open>NaN\<close> is the one other number in the type; fractions, larger numbers and the infinities
  are not values of \<open>jsval\<close>. A string is the list of its characters; the characters
  modelled are the 8-bit ones, which cover ASCII.
\<close>

datatype jsval = Undefined | Null | Bool bool | Num "54 word" | NaN | Str string

text \<open>Truthiness, as \<^verbatim>\<open>if (x)\<close>, \<^verbatim>\<open>!x\<close> and \<^verbatim>\<open>x || d\<close> decide it.\<close>

fun truthy :: "jsval \<Rightarrow> bool" where
  "truthy Undefined = False"
| "truthy Null = False"
| "truthy (Bool b) = b"
| "truthy (Num n) = (n \<noteq> 0)"
| "truthy NaN = False"
| "truthy (Str s) = (s \<noteq> [])"

text \<open>Decimal rendering of a number, as a template literal and \<^verbatim>\<open>toString()\<close> produce it.\<close>

definition digit_char :: "nat \<Rightarrow> char" where
  "digit_char d = char_of (48 + d)"

function show_nat :: "nat \<Rightarrow> string" where
  "show_nat n = (if n < 10 then [digit_char n] else show_nat (n div 10) @ [digit_char (n mod 10)])"
  by pat_completeness auto
termination
  by (relation "measure (\<lambda>n. n)") auto

definition show_int :: "int \<Rightarrow> string" where
  "show_int i = (if i < 0 then CHR ''-'' # show_nat (nat (- i)) else show_nat (nat i))"

text \<open>
  \<^verbatim>\<open>String(v)\<close> on a primitive value, which is also what \<^verbatim>\<open>`${v}`\<close> and
  \<^verbatim>\<open>v.toString()\<close> give for it.
\<close>

fun ToString :: "jsval \<Rightarrow> string" where
  "ToString Undefined = ''undefined''"
| "ToString Null = ''null''"
| "ToString (Bool b) = (if b then ''true'' else ''false'')"
| "ToString (Num n) = show_int (sint n)"
| "ToString NaN = ''NaN''"
| "ToString (Str s) = s"

text \<open>\<^verbatim>\<open>s.includes(t)\<close>: \<open>t\<close> occurs in \<open>s\<close> as a contiguous run.\<close>

fun includes_str :: "string \<Rightarrow> string \<Rightarrow> bool" where
  "includes_str [] t = (t = [])"
| "includes_str (c # cs) t = (prefix t (c # cs) \<or> includes_str cs t)"

text \<open>
  \<^verbatim>\<open>s.trim()\<close> removes white space at both ends. Of the characters JavaScript counts as
  white space, the 8-bit ones are tab, line feed, vertical tab, form feed, carriage return,
  space and the no-break space.
\<close>

definition is_white_space :: "char \<Rightarrow> bool" where
  "is_white_space c = (of_char c \<in> {9, 10, 11, 12, 13, 32, 160 :: nat})"

definition trim :: "string \<Rightarrow> string" where
  "trim s = rev (dropWhile is_white_space (rev (dropWhile is_white_space s)))"

section \<open>Thrown values\<close>

text \<open>
  What the request client throws and what its \<^verbatim>\<open>catch\<close> block sees: the errors of the
  platform (\<^verbatim>\<open>fetch\<close>, \<^verbatim>\<open>JSON.parse\<close>) and its own \<^verbatim>\<open>new Error(...)\<close>.
  \<open>Error name message\<close> is an object that is \<^verbatim>\<open>instanceof Error\<close>, with its
  \<^verbatim>\<open>name\<close> and its \<^verbatim>\<open>message\<close>, a string; \<open>Thrown v\<close> is a thrown primitive value,
  which is not an error object. A computation that may throw returns \<open>thrown + 'a\<close>, with
  \<open>Inl\<close> for the throw.
\<close>

datatype thrown = Error string string | Thrown jsval

definition new_Error :: "string \<Rightarrow> thrown" where
  "new_Error message = Error ''Error'' message"

section \<open>The world outside: HTTP transport, timers, diagnostic stream\<close>

text \<open>
  What one \<^verbatim>\<open>fetch(url, fetchOptions)\<close> is given. \<open>abort_after\<close> is the delay of the
  timer that aborts the call through the request's signal. The body is kept as the object
  handed to \<^verbatim>\<open>JSON.stringify\<close>.
\<close>

datatype http_method = GET | POST | DELETE

record request =
  url :: string
  http_method :: http_method
  authorization :: string
  content_type :: string
  body :: "(string \<times> jsval) list option"
  abort_after :: int

text \<open>
  What the \<^verbatim>\<open>fetch\<close> gives back: a response with its status and body text, or a
  rejection (a network failure, or the \<open>AbortError\<close> of the signal when the timer fired
  first). The transport is a parameter of the model: it answers the \<open>n\<close>-th physical
  request, counted from 0 over the world's whole history.
\<close>

datatype fetch_result = Response nat string | Rejected thrown

type_synonym transport = "nat \<Rightarrow> request \<Rightarrow> fetch_result"

text \<open>\<^verbatim>\<open>response.ok\<close>\<close>

definition ok :: "nat \<Rightarrow> bool" where
  "ok status = (200 \<le> status \<and> status \<le> 299)"

text \<open>
  The effects of the program, as a log: the physical requests issued, the delays waited
  between attempts (in milliseconds), and the lines written by \<^verbatim>\<open>console.error\<close>.
\<close>

record world =
  requests :: "request list"
  delays :: "int list"
  diagnostics :: "string list"

text \<open>
  The payload of a response once parsed. \<^verbatim>\<open>JSON.parse\<close> belongs to the platform and is
  a parameter of the client's model: it returns the value or throws.
\<close>

datatype json =
  JNull | JBool bool | JNumber int | JString string
  | JArray "json list" | JObject "(string \<times> json) list"

type_synonym JSON_parse = "string \<Rightarrow> thrown + json"

section \<open>\<^verbatim>\<open>withErrorHandling\<close>\<close>

record content_block =
  block_type :: string
  block_text :: string

record CallToolResult =
  isError :: "bool option"
  content :: "content_block list"

text \<open>
  A handler is arbitrary code and may throw any value at all. For the wrapper a thrown
  value is one of three kinds, by what happens when its \<^verbatim>\<open>catch\<close> block makes the message
  \<^verbatim>\<open>err instanceof Error ? err.message : String(err)\<close> and inserts it into its two
  template literals:
  \<^item> \<open>Plain e\<close>: an error object with a string message or a primitive value, as the
    request client throws them;
  \<^item> \<open>Coerces_to s\<close>: any other value for which this gives the string \<open>s\<close>: an object
    with a \<^verbatim>\<open>toString\<close> that returns \<open>s\<close> (a plain object gives \<open>[object Object]\<close>),
    a symbol, a number outside \<open>jsval\<close> (\<open>1e21\<close> gives \<open>1e+21\<close>), an error object whose
    message is not a string but coerces to \<open>s\<close>;
  \<^item> \<open>Coercion_throws x\<close>: any other value for which this throws \<open>x\<close>: an object
    without prototype (\<^verbatim>\<open>Object.create(null)\<close>, a \<open>TypeError\<close>), an object whose
    \<^verbatim>\<open>toString\<close> throws \<open>x\<close>, an error object whose message is a symbol.
\<close>

datatype caught = Plain thrown | Coerces_to string | Coercion_throws caught

text \<open>
  A handler takes the parameter object, may act on the world, and resolves with a result
  or rejects with what was thrown.
\<close>

type_synonym 'p ToolHandler = "'p \<Rightarrow> world \<Rightarrow> (caught + CallToolResult) \<times> world"

text \<open>
  \<^verbatim>\<open>err instanceof Error ? err.message : String(err)\<close>, as a string ready for the
  template literals, or the throw of the coercion.
\<close>

fun error_message :: "caught \<Rightarrow> caught + string" where
  "error_message (Plain (Error name message)) = Inr message"
| "error_message (Plain (Thrown v)) = Inr (ToString v)"
| "error_message (Coerces_to s) = Inr s"
| "error_message (Coercion_throws x) = Inl x"

definition console_error :: "string \<Rightarrow> world \<Rightarrow> world" where
  "console_error line w = w\<lparr>diagnostics := diagnostics w @ [line]\<rparr>"

definition withErrorHandling :: "'p ToolHandler \<Rightarrow> 'p ToolHandler" where
  "withErrorHandling handler params w =
     (case handler params w of
        (Inr result, w') \<Rightarrow> (Inr result, w')
      | (Inl err, w') \<Rightarrow>
          (case error_message err of
             Inl x \<Rightarrow> (Inl x, w')
           | Inr message \<Rightarrow>
               (Inr \<lparr>isError = Some True,
                     content = [\<lparr>block_type = ''text'', block_text = ''Error: '' @ message\<rparr>]\<rparr>,
                console_error (''[Tool Error] '' @ message) w')))"

section \<open>The request client\<close>

definition API_BASE :: string where
  "API_BASE = ''https://api.webmaster.yandex.net/v4''"

text \<open>
  \<^verbatim>\<open>ClientConfig\<close> has three optional numbers; \<^verbatim>\<open>Required<ClientConfig>\<close> has all
  three. One record serves both, at \<open>int option\<close> and at \<open>int\<close>.
\<close>

record 'n ClientConfig =
  timeout :: 'n
  retries :: 'n
  retryDelay :: 'n

record RequestOptions =
  method_opt :: "http_method option"
  body_opt :: "(string \<times> jsval) list option"

record YandexWebmasterClient =
  token :: string
  config :: "int ClientConfig"

text \<open>\<^verbatim>\<open>x || d\<close> on an optional number: the default replaces a missing value and 0.\<close>

definition or_default :: "int option \<Rightarrow> int \<Rightarrow> int" where
  "or_default x d = (case x of None \<Rightarrow> d | Some v \<Rightarrow> if v = 0 then d else v)"

definition no_config :: "int option ClientConfig" where
  "no_config = \<lparr>timeout = None, retries = None, retryDelay = None\<rparr>"

definition new_client :: "string \<Rightarrow> int option ClientConfig \<Rightarrow> YandexWebmasterClient" where
  "new_client tok cfg =
     \<lparr>token = tok,
      config = \<lparr>timeout = or_default (timeout cfg) 30000,
                retries = or_default (retries cfg) 3,
                retryDelay = or_default (retryDelay cfg) 1000\<rparr>\<rparr>"

definition no_options :: RequestOptions where
  "no_options = \<lparr>method_opt = None, body_opt = None\<rparr>"

fun isRetryableError :: "thrown \<Rightarrow> bool" where
  "isRetryableError (Error name message) =
     (name = ''AbortError'' \<or> includes_str message ''500'' \<or>
      includes_str message ''502'' \<or> includes_str message ''503'')"
| "isRetryableError (Thrown v) = False"

text \<open>The part of that test that reads the message: one of the three numbers occurs in it.\<close>

definition mentions_retryable_status :: "string \<Rightarrow> bool" where
  "mentions_retryable_status s =
     (includes_str s ''500'' \<or> includes_str s ''502'' \<or> includes_str s ''503'')"

definition delay :: "int \<Rightarrow> world \<Rightarrow> world" where
  "delay ms w = w\<lparr>delays := delays w @ [ms]\<rparr>"

text \<open>The request that one attempt hands to \<^verbatim>\<open>fetch\<close>.\<close>

definition fetch_request :: "YandexWebmasterClient \<Rightarrow> string \<Rightarrow> RequestOptions \<Rightarrow> request" where
  "fetch_request c u options =
     \<lparr>url = u,
      http_method = (case method_opt options of None \<Rightarrow> GET | Some m \<Rightarrow> m),
      authorization = ''OAuth '' @ token c,
      content_type = ''application/json'',
      body = body_opt options,
      abort_after = timeout (config c)\<rparr>"

text \<open>
  The \<^verbatim>\<open>try\<close> block of \<^verbatim>\<open>makeRequest\<close>: one physical attempt. It issues the
  request, throws on a status that is not \<^verbatim>\<open>ok\<close>, and otherwise parses the body (an
  empty body is the empty object).
\<close>

definition attempt_once ::
  "YandexWebmasterClient \<Rightarrow> JSON_parse \<Rightarrow> transport \<Rightarrow> string \<Rightarrow> RequestOptions \<Rightarrow> world
     \<Rightarrow> (thrown + json) \<times> world" where
  "attempt_once c parse fetch u options w =
     (let req = fetch_request c u options;
          w' = w\<lparr>requests := requests w @ [req]\<rparr>
      in case fetch (length (requests w)) req of
           Rejected err \<Rightarrow> (Inl err, w')
         | Response status txt \<Rightarrow>
             if \<not> ok status
             then (Inl (new_Error (''Yandex Webmaster error '' @ show_nat status @ '': '' @ txt)), w')
             else (if txt \<noteq> [] then parse txt else Inr (JObject []), w'))"

text \<open>
  The \<^verbatim>\<open>catch\<close> block retries while the attempt number is below the ceiling and the
  error is retryable. The recursion ends because the distance to the ceiling shrinks.
\<close>

function makeRequest ::
  "YandexWebmasterClient \<Rightarrow> JSON_parse \<Rightarrow> transport \<Rightarrow> string \<Rightarrow> RequestOptions \<Rightarrow> int \<Rightarrow> world
     \<Rightarrow> (thrown + json) \<times> world" where
  "makeRequest c parse fetch u options attempt w =
     (case attempt_once c parse fetch u options w of
        (Inr v, w') \<Rightarrow> (Inr v, w')
      | (Inl err, w') \<Rightarrow>
          if attempt < retries (config c) \<and> isRetryableError err
          then makeRequest c parse fetch u options (attempt + 1)
                 (delay (retryDelay (config c) * attempt) w')
          else (Inl err, w'))"
  by pat_completeness auto
termination
  by (relation "measure (\<lambda>(c, parse, fetch, u, options, attempt, w). nat (retries (config c) - attempt))") auto

declare makeRequest.simps [simp del]
declare show_nat.simps [simp del]

section \<open>Parameter validation and URL building\<close>

text \<open>\<^verbatim>\<open>params[field]\<close>: a key the object does not have reads as \<open>undefined\<close>.\<close>

definition get_field :: "(string \<times> jsval) list \<Rightarrow> string \<Rightarrow> jsval" where
  "get_field params field = (case map_of params field of None \<Rightarrow> Undefined | Some v \<Rightarrow> v)"

text \<open>
  The test of \<^verbatim>\<open>validateRequired\<close> on one value:
  \<^verbatim>\<open>!v || (typeof v === 'string' && !v.trim())\<close>.
\<close>

definition rejected_value :: "jsval \<Rightarrow> bool" where
  "rejected_value v = (\<not> truthy v \<or> (case v of Str s \<Rightarrow> trim s = [] | _ \<Rightarrow> False))"

fun validateRequired :: "(string \<times> jsval) list \<Rightarrow> string list \<Rightarrow> thrown + unit" where
  "validateRequired params [] = Inr ()"
| "validateRequired params (field # rest) =
     (if rejected_value (get_field params field)
      then Inl (new_Error (field @ '' is required and must be non-empty''))
      else validateRequired params rest)"

definition hostUrl :: "jsval \<Rightarrow> jsval \<Rightarrow> string \<Rightarrow> string" where
  "hostUrl userId hostId path =
     API_BASE @ ''/user/'' @ ToString userId @ ''/hosts/'' @ ToString hostId @ path"

subsection \<open>\<^verbatim>\<open>URLSearchParams\<close>\<close>

text \<open>
  The platform's \<^verbatim>\<open>URLSearchParams\<close>, after the URL standard: an ordered list of
  name-value pairs of strings. The constructor takes the members of an object in their
  order, \<^verbatim>\<open>set\<close> overwrites the first pair of that name and drops the others or appends a
  new pair, and the serializer percent-encodes the UTF-8 bytes of names and values, leaving
  ASCII letters, digits and \<^verbatim>\<open>*-._\<close> alone and writing a space as \<^verbatim>\<open>+\<close>.
\<close>

type_synonym URLSearchParams = "(string \<times> string) list"

definition new_URLSearchParams :: "(string \<times> jsval) list \<Rightarrow> URLSearchParams" where
  "new_URLSearchParams init = map (\<lambda>(k, v). (k, ToString v)) init"

fun URLSearchParams_set :: "string \<Rightarrow> string \<Rightarrow> URLSearchParams \<Rightarrow> URLSearchParams" where
  "URLSearchParams_set k v [] = [(k, v)]"
| "URLSearchParams_set k v ((k', v') # ps) =
     (if k' = k then (k, v) # filter (\<lambda>(n, _). n \<noteq> k) ps
      else (k', v') # URLSearchParams_set k v ps)"

definition hex_char :: "nat \<Rightarrow> char" where
  "hex_char d = (if d < 10 then char_of (48 + d) else char_of (55 + d))"

definition percent_byte :: "nat \<Rightarrow> string" where
  "percent_byte b = [CHR ''%'', hex_char (b div 16), hex_char (b mod 16)]"

definition form_safe :: "nat \<Rightarrow> bool" where
  "form_safe n =
     ((48 \<le> n \<and> n \<le> 57) \<or> (65 \<le> n \<and> n \<le> 90) \<or> (97 \<le> n \<and> n \<le> 122) \<or>
      n = 42 \<or> n = 45 \<or> n = 46 \<or> n = 95)"

definition urlencode_char :: "char \<Rightarrow> string" where
  "urlencode_char c =
     (let n = (of_char c :: nat)
      in if n = 32 then ''+''
         else if form_safe n then [c]
         else if n < 128 then percent_byte n
         else percent_byte (192 + n div 64) @ percent_byte (128 + n mod 64))"

definition urlencode :: "string \<Rightarrow> string" where
  "urlencode s = concat (map urlencode_char s)"

fun join_amp :: "string list \<Rightarrow> string" where
  "join_amp [] = []"
| "join_amp [x] = x"
| "join_amp (x # y # ys) = x @ ''&'' @ join_amp (y # ys)"

definition URLSearchParams_toString :: "URLSearchParams \<Rightarrow> string" where
  "URLSearchParams_toString ps = join_amp (map (\<lambda>(k, v). urlencode k @ ''='' @ urlencode v) ps)"

text \<open>\<^verbatim>\<open>if (v) queryParams.set(key, v.toString())\<close>\<close>

definition set_if_truthy :: "string \<Rightarrow> jsval \<Rightarrow> URLSearchParams \<Rightarrow> URLSearchParams" where
  "set_if_truthy k v ps = (if truthy v then URLSearchParams_set k (ToString v) ps else ps)"

subsection \<open>Parameter objects\<close>

text \<open>
  A parameter object is a JavaScript object: the list of its own properties with their
  values, read with \<open>get_field\<close>, so that the first binding of a key is the property and
  a key without binding reads as \<open>undefined\<close>. The interfaces \<^verbatim>\<open>DateRangeParams\<close> and
  \<^verbatim>\<open>SearchQueriesParams\<close> name the properties that the code reads; at run time an object
  may lack any of them and may have others.
\<close>

type_synonym DateRangeParams = "(string \<times> jsval) list"

type_synonym SearchQueriesParams = "(string \<times> jsval) list"

text \<open>
  \<^verbatim>\<open>{ a, b, ...params }\<close>: the properties written out, then the own properties of
  \<open>params\<close>, which replace written ones of the same key. With the first binding as the
  property, the bindings of \<open>params\<close> come first.
\<close>

definition object_spread :: "(string \<times> jsval) list \<Rightarrow> (string \<times> jsval) list \<Rightarrow> (string \<times> jsval) list" where
  "object_spread written params = params @ written"

text \<open>An object with one property set, and with one property removed.\<close>

definition with_field :: "string \<Rightarrow> jsval \<Rightarrow> (string \<times> jsval) list \<Rightarrow> (string \<times> jsval) list" where
  "with_field k v obj = (k, v) # obj"

definition without_field :: "string \<Rightarrow> (string \<times> jsval) list \<Rightarrow> (string \<times> jsval) list" where
  "without_field k obj = filter (\<lambda>(n, _). n \<noteq> k) obj"

text \<open>The query of \<^verbatim>\<open>getPopularQueries\<close>, as the \<^verbatim>\<open>URLSearchParams\<close> it builds.\<close>

definition popular_query_params :: "SearchQueriesParams \<Rightarrow> URLSearchParams" where
  "popular_query_params params =
     (let q0 = new_URLSearchParams
                 [(''date_from'', get_field params ''dateFrom''),
                  (''date_to'', get_field params ''dateTo''),
                  (''order_by'', get_field params ''orderBy'')];
          q1 = set_if_truthy ''query_indicator'' (get_field params ''queryIndicator'') q0;
          q2 = set_if_truthy ''limit'' (get_field params ''limit'') q1;
          q3 = set_if_truthy ''offset'' (get_field params ''offset'') q2
      in q3)"

definition date_range_params :: "DateRangeParams \<Rightarrow> URLSearchParams" where
  "date_range_params params =
     new_URLSearchParams
       [(''date_from'', get_field params ''dateFrom''), (''date_to'', get_field params ''dateTo'')]"

text \<open>
  The query of the four sample and task listings, and the suffix
  \<^verbatim>\<open>queryString ? '?' + queryString : ''\<close> they append to the path.
\<close>

definition paging_params :: "jsval \<Rightarrow> jsval \<Rightarrow> URLSearchParams" where
  "paging_params lim off = set_if_truthy ''offset'' off (set_if_truthy ''limit'' lim [])"

definition paging_suffix :: "jsval \<Rightarrow> jsval \<Rightarrow> string" where
  "paging_suffix lim off =
     (let queryString = URLSearchParams_toString (paging_params lim off)
      in if queryString \<noteq> [] then ''?'' @ queryString else [])"

section \<open>The client's operations\<close>

text \<open>
  Every public method of the client has the same shape: it validates an object of its
  arguments against a list of required fields, builds a URL, and delegates to
  \<^verbatim>\<open>makeRequest\<close> with its options and attempt 1. A call of a method is a value of
  \<open>operation\<close>, named after the method and carrying the arguments; four tables give,
  per method, the object validated, the required fields, the URL and the options; and
  \<open>invoke\<close> runs the shared shape. \<^verbatim>\<open>getUserId\<close> validates nothing, which is
  validation against no field.
\<close>

datatype operation =
    getUserId
  | getHosts jsval
  | getHostInfo jsval jsval
  | addHost jsval jsval
  | deleteHost jsval jsval
  | verifyHost jsval jsval jsval
  | getVerificationStatus jsval jsval
  | getHostOwners jsval jsval
  | getPopularQueries jsval jsval SearchQueriesParams
  | getQueryHistory jsval jsval DateRangeParams
  | getSingleQueryHistory jsval jsval jsval DateRangeParams
  | getIndexingSummary jsval jsval
  | getIndexingHistory jsval jsval DateRangeParams
  | getIndexingSamples jsval jsval jsval jsval
  | requestRecrawl jsval jsval jsval
  | getRecrawlTasks jsval jsval jsval jsval
  | getRecrawlTaskStatus jsval jsval jsval
  | getRecrawlQuota jsval jsval
  | getSitemaps jsval jsval
  | getSitemapInfo jsval jsval jsval
  | addSitemap jsval jsval jsval
  | deleteSitemap jsval jsval jsval
  | getInternalLinks jsval jsval jsval jsval
  | getExternalLinks jsval jsval jsval jsval
  | getSqiHistory jsval jsval DateRangeParams
  | getRssFeeds jsval jsval
  | addRssFeed jsval jsval jsval
  | getRssFeedInfo jsval jsval jsval
  | deleteRssFeed jsval jsval jsval
  | getSiteDiagnostics jsval jsval

text \<open>The object handed to \<^verbatim>\<open>validateRequired\<close>; a parameter object is spread into it.\<close>

fun validated_object :: "operation \<Rightarrow> (string \<times> jsval) list" where
  "validated_object getUserId = []"
| "validated_object (getHosts userId) = [(''userId'', userId)]"
| "validated_object (getHostInfo userId hostId) = [(''userId'', userId), (''hostId'', hostId)]"
| "validated_object (addHost userId hostUrl') = [(''userId'', userId), (''hostUrl'', hostUrl')]"
| "validated_object (deleteHost userId hostId) = [(''userId'', userId), (''hostId'', hostId)]"
| "validated_object (verifyHost userId hostId verificationType) = [(''userId'', userId), (''hostId'', hostId), (''verificationType'', verificationType)]"
| "validated_object (getVerificationStatus userId hostId) = [(''userId'', userId), (''hostId'', hostId)]"
| "validated_object (getHostOwners userId hostId) = [(''userId'', userId), (''hostId'', hostId)]"
| "validated_object (getPopularQueries userId hostId params) =
     object_spread [(''userId'', userId), (''hostId'', hostId)] params"
| "validated_object (getQueryHistory userId hostId params) =
     object_spread [(''userId'', userId), (''hostId'', hostId)] params"
| "validated_object (getSingleQueryHistory userId hostId queryText params) =
     object_spread [(''userId'', userId), (''hostId'', hostId), (''queryText'', queryText)] params"
| "validated_object (getIndexingSummary userId hostId) = [(''userId'', userId), (''hostId'', hostId)]"
| "validated_object (getIndexingHistory userId hostId params) =
     object_spread [(''userId'', userId), (''hostId'', hostId)] params"
| "validated_object (getIndexingSamples userId hostId lim off) = [(''userId'', userId), (''hostId'', hostId)]"
| "validated_object (requestRecrawl userId hostId pageUrl) = [(''userId'', userId), (''hostId'', hostId), (''pageUrl'', pageUrl)]"
| "validated_object (getRecrawlTasks userId hostId lim off) = [(''userId'', userId), (''hostId'', hostId)]"
| "validated_object (getRecrawlTaskStatus userId hostId taskId) = [(''userId'', userId), (''hostId'', hostId), (''taskId'', taskId)]"
| "validated_object (getRecrawlQuota userId hostId) = [(''userId'', userId), (''hostId'', hostId)]"
| "validated_object (getSitemaps userId hostId) = [(''userId'', userId), (''hostId'', hostId)]"
| "validated_object (getSitemapInfo userId hostId sitemapId) = [(''userId'', userId), (''hostId'', hostId), (''sitemapId'', sitemapId)]"
| "validated_object (addSitemap userId hostId sitemapUrl) = [(''userId'', userId), (''hostId'', hostId), (''sitemapUrl'', sitemapUrl)]"
| "validated_object (deleteSitemap userId hostId sitemapId) = [(''userId'', userId), (''hostId'', hostId), (''sitemapId'', sitemapId)]"
| "validated_object (getInternalLinks userId hostId lim off) = [(''userId'', userId), (''hostId'', hostId)]"
| "validated_object (getExternalLinks userId hostId lim off) = [(''userId'', userId), (''hostId'', hostId)]"
| "validated_object (getSqiHistory userId hostId params) =
     object_spread [(''userId'', userId), (''hostId'', hostId)] params"
| "validated_object (getRssFeeds userId hostId) = [(''userId'', userId), (''hostId'', hostId)]"
| "validated_object (addRssFeed userId hostId feedUrl) = [(''userId'', userId), (''hostId'', hostId), (''feedUrl'', feedUrl)]"
| "validated_object (getRssFeedInfo userId hostId feedId) = [(''userId'', userId), (''hostId'', hostId), (''feedId'', feedId)]"
| "validated_object (deleteRssFeed userId hostId feedId) = [(''userId'', userId), (''hostId'', hostId), (''feedId'', feedId)]"
| "validated_object (getSiteDiagnostics userId hostId) = [(''userId'', userId), (''hostId'', hostId)]"

fun required_fields :: "operation \<Rightarrow> string list" where
  "required_fields getUserId = []"
| "required_fields (getHosts userId) = [''userId'']"
| "required_fields (getHostInfo userId hostId) = [''userId'', ''hostId'']"
| "required_fields (addHost userId hostUrl') = [''userId'', ''hostUrl'']"
| "required_fields (deleteHost userId hostId) = [''userId'', ''hostId'']"
| "required_fields (verifyHost userId hostId verificationType) = [''userId'', ''hostId'', ''verificationType'']"
| "required_fields (getVerificationStatus userId hostId) = [''userId'', ''hostId'']"
| "required_fields (getHostOwners userId hostId) = [''userId'', ''hostId'']"
| "required_fields (getPopularQueries userId hostId params) = [''userId'', ''hostId'', ''dateFrom'', ''dateTo'', ''orderBy'']"
| "required_fields (getQueryHistory userId hostId params) = [''userId'', ''hostId'', ''dateFrom'', ''dateTo'']"
| "required_fields (getSingleQueryHistory userId hostId queryText params) = [''userId'', ''hostId'', ''queryText'', ''dateFrom'', ''dateTo'']"
| "required_fields (getIndexingSummary userId hostId) = [''userId'', ''hostId'']"
| "required_fields (getIndexingHistory userId hostId params) = [''userId'', ''hostId'', ''dateFrom'', ''dateTo'']"
| "required_fields (getIndexingSamples userId hostId lim off) = [''userId'', ''hostId'']"
| "required_fields (requestRecrawl userId hostId pageUrl) = [''userId'', ''hostId'', ''pageUrl'']"
| "required_fields (getRecrawlTasks userId hostId lim off) = [''userId'', ''hostId'']"
| "required_fields (getRecrawlTaskStatus userId hostId taskId) = [''userId'', ''hostId'', ''taskId'']"
| "required_fields (getRecrawlQuota userId hostId) = [''userId'', ''hostId'']"
| "required_fields (getSitemaps userId hostId) = [''userId'', ''hostId'']"
| "required_fields (getSitemapInfo userId hostId sitemapId) = [''userId'', ''hostId'', ''sitemapId'']"
| "required_fields (addSitemap userId hostId sitemapUrl) = [''userId'', ''hostId'', ''sitemapUrl'']"
| "required_fields (deleteSitemap userId hostId sitemapId) = [''userId'', ''hostId'', ''sitemapId'']"
| "required_fields (getInternalLinks userId hostId lim off) = [''userId'', ''hostId'']"
| "required_fields (getExternalLinks userId hostId lim off) = [''userId'', ''hostId'']"
| "required_fields (getSqiHistory userId hostId params) = [''userId'', ''hostId'', ''dateFrom'', ''dateTo'']"
| "required_fields (getRssFeeds userId hostId) = [''userId'', ''hostId'']"
| "required_fields (addRssFeed userId hostId feedUrl) = [''userId'', ''hostId'', ''feedUrl'']"
| "required_fields (getRssFeedInfo userId hostId feedId) = [''userId'', ''hostId'', ''feedId'']"
| "required_fields (deleteRssFeed userId hostId feedId) = [''userId'', ''hostId'', ''feedId'']"
| "required_fields (getSiteDiagnostics userId hostId) = [''userId'', ''hostId'']"

fun request_url :: "operation \<Rightarrow> string" where
  "request_url getUserId =
     API_BASE @ ''/user''"
| "request_url (getHosts userId) =
     API_BASE @ ''/user/'' @ ToString userId @ ''/hosts''"
| "request_url (getHostInfo userId hostId) =
     hostUrl userId hostId []"
| "request_url (addHost userId hostUrl') =
     API_BASE @ ''/user/'' @ ToString userId @ ''/hosts''"
| "request_url (deleteHost userId hostId) =
     hostUrl userId hostId []"
| "request_url (verifyHost userId hostId verificationType) =
     hostUrl userId hostId ''/verification''"
| "request_url (getVerificationStatus userId hostId) =
     hostUrl userId hostId ''/verification''"
| "request_url (getHostOwners userId hostId) =
     hostUrl userId hostId ''/owners''"
| "request_url (getPopularQueries userId hostId params) =
     hostUrl userId hostId (''/search-queries/popular?'' @ URLSearchParams_toString (popular_query_params params))"
| "request_url (getQueryHistory userId hostId params) =
     hostUrl userId hostId (''/search-queries/history/all?'' @ URLSearchParams_toString (date_range_params params))"
| "request_url (getSingleQueryHistory userId hostId queryText params) =
     hostUrl userId hostId (''/search-queries/history?'' @ URLSearchParams_toString (new_URLSearchParams [(''query_text'', queryText), (''date_from'', get_field params ''dateFrom''), (''date_to'', get_field params ''dateTo'')]))"
| "request_url (getIndexingSummary userId hostId) =
     hostUrl userId hostId ''/summary''"
| "request_url (getIndexingHistory userId hostId params) =
     hostUrl userId hostId (''/indexing/history?'' @ URLSearchParams_toString (date_range_params params))"
| "request_url (getIndexingSamples userId hostId lim off) =
     hostUrl userId hostId (''/indexing/samples'' @ paging_suffix lim off)"
| "request_url (requestRecrawl userId hostId pageUrl) =
     hostUrl userId hostId ''/recrawl''"
| "request_url (getRecrawlTasks userId hostId lim off) =
     hostUrl userId hostId (''/recrawl/tasks'' @ paging_suffix lim off)"
| "request_url (getRecrawlTaskStatus userId hostId taskId) =
     hostUrl userId hostId (''/recrawl/tasks/'' @ ToString taskId)"
| "request_url (getRecrawlQuota userId hostId) =
     hostUrl userId hostId ''/recrawl/quota''"
| "request_url (getSitemaps userId hostId) =
     hostUrl userId hostId ''/sitemaps''"
| "request_url (getSitemapInfo userId hostId sitemapId) =
     hostUrl userId hostId (''/sitemaps/'' @ ToString sitemapId)"
| "request_url (addSitemap userId hostId sitemapUrl) =
     hostUrl userId hostId ''/user-added-sitemaps''"
| "request_url (deleteSitemap userId hostId sitemapId) =
     hostUrl userId hostId (''/user-added-sitemaps/'' @ ToString sitemapId)"
| "request_url (getInternalLinks userId hostId lim off) =
     hostUrl userId hostId (''/links/internal/samples'' @ paging_suffix lim off)"
| "request_url (getExternalLinks userId hostId lim off) =
     hostUrl userId hostId (''/links/external/samples'' @ paging_suffix lim off)"
| "request_url (getSqiHistory userId hostId params) =
     hostUrl userId hostId (''/sqi/history?'' @ URLSearchParams_toString (date_range_params params))"
| "request_url (getRssFeeds userId hostId) =
     hostUrl userId hostId ''/rss-feeds''"
| "request_url (addRssFeed userId hostId feedUrl) =
     hostUrl userId hostId ''/rss-feeds''"
| "request_url (getRssFeedInfo userId hostId feedId) =
     hostUrl userId hostId (''/rss-feeds/'' @ ToString feedId)"
| "request_url (deleteRssFeed userId hostId feedId) =
     hostUrl userId hostId (''/rss-feeds/'' @ ToString feedId)"
| "request_url (getSiteDiagnostics userId hostId) =
     hostUrl userId hostId ''/diagnostics''"

fun request_options :: "operation \<Rightarrow> RequestOptions" where
  "request_options getUserId = no_options"
| "request_options (getHosts userId) = no_options"
| "request_options (getHostInfo userId hostId) = no_options"
| "request_options (addHost userId hostUrl') = \<lparr>method_opt = Some POST, body_opt = Some [(''host_url'', hostUrl')]\<rparr>"
| "request_options (deleteHost userId hostId) = \<lparr>method_opt = Some DELETE, body_opt = None\<rparr>"
| "request_options (verifyHost userId hostId verificationType) = \<lparr>method_opt = Some POST, body_opt = Some [(''verification_type'', verificationType)]\<rparr>"
| "request_options (getVerificationStatus userId hostId) = no_options"
| "request_options (getHostOwners userId hostId) = no_options"
| "request_options (getPopularQueries userId hostId params) = no_options"
| "request_options (getQueryHistory userId hostId params) = no_options"
| "request_options (getSingleQueryHistory userId hostId queryText params) = no_options"
| "request_options (getIndexingSummary userId hostId) = no_options"
| "request_options (getIndexingHistory userId hostId params) = no_options"
| "request_options (getIndexingSamples userId hostId lim off) = no_options"
| "request_options (requestRecrawl userId hostId pageUrl) = \<lparr>method_opt = Some POST, body_opt = Some [(''url'', pageUrl)]\<rparr>"
| "request_options (getRecrawlTasks userId hostId lim off) = no_options"
| "request_options (getRecrawlTaskStatus userId hostId taskId) = no_options"
| "request_options (getRecrawlQuota userId hostId) = no_options"
| "request_options (getSitemaps userId hostId) = no_options"
| "request_options (getSitemapInfo userId hostId sitemapId) = no_options"
| "request_options (addSitemap userId hostId sitemapUrl) = \<lparr>method_opt = Some POST, body_opt = Some [(''url'', sitemapUrl)]\<rparr>"
| "request_options (deleteSitemap userId hostId sitemapId) = \<lparr>method_opt = Some DELETE, body_opt = None\<rparr>"
| "request_options (getInternalLinks userId hostId lim off) = no_options"
| "request_options (getExternalLinks userId hostId lim off) = no_options"
| "request_options (getSqiHistory userId hostId params) = no_options"
| "request_options (getRssFeeds userId hostId) = no_options"
| "request_options (addRssFeed userId hostId feedUrl) = \<lparr>method_opt = Some POST, body_opt = Some [(''url'', feedUrl)]\<rparr>"
| "request_options (getRssFeedInfo userId hostId feedId) = no_options"
| "request_options (deleteRssFeed userId hostId feedId) = \<lparr>method_opt = Some DELETE, body_opt = None\<rparr>"
| "request_options (getSiteDiagnostics userId hostId) = no_options"

definition invoke ::
  "YandexWebmasterClient \<Rightarrow> JSON_parse \<Rightarrow> transport \<Rightarrow> operation \<Rightarrow> world
     \<Rightarrow> (thrown + json) \<times> world" where
  "invoke c parse fetch op w =
     (case validateRequired (validated_object op) (required_fields op) of
        Inl err \<Rightarrow> (Inl err, w)
      | Inr _ \<Rightarrow> makeRequest c parse fetch (request_url op) (request_options op) 1 w)"

section \<open>The words of the specification\<close>


section \<open>Concrete inputs\<close>

text \<open>
  Small worlds, transports and handlers on which the properties below are run: a world
  with nothing logged, a transport that always answers the same, a transport that answers
  from a script and then with a default, a client with the default configuration, and
  handlers that resolve with a given result or throw a given value.
\<close>

definition empty_world :: world where
  "empty_world = \<lparr>requests = [], delays = [], diagnostics = []\<rparr>"

definition always :: "fetch_result \<Rightarrow> transport" where
  "always r n req = r"

definition scripted :: "fetch_result list \<Rightarrow> fetch_result \<Rightarrow> transport" where
  "scripted rs r n req = (if n < length rs then rs ! n else r)"

definition default_client :: YandexWebmasterClient where
  "default_client = new_client ''token'' no_config"

definition resolving :: "CallToolResult \<Rightarrow> unit ToolHandler" where
  "resolving r params w = (Inr r, w)"


definition text_result :: "string \<Rightarrow> CallToolResult" where
  "text_result s = \<lparr>isError = None, content = [\<lparr>block_type = ''text'', block_text = s\<rparr>]\<rparr>"

definition flagged_result :: CallToolResult where
  "flagged_result =
     \<lparr>isError = Some True, content = [\<lparr>block_type = ''text'', block_text = ''not found''\<rparr>]\<rparr>"

text \<open>
  The parameter object of the popular-queries scenario: January 2024, ordered by clicks,
  no optional field supplied.
\<close>

definition january_clicks :: SearchQueriesParams where
  "january_clicks =
     [(''dateFrom'', Str ''2024-01-01''), (''dateTo'', Str ''2024-01-31''),
      (''orderBy'', Str ''TOTAL_CLICKS'')]"


text \<open>
  A parser that knows the two empty JSON texts and throws a \<open>SyntaxError\<close> on every
  other text.
\<close>

definition empty_JSON_parse :: JSON_parse where
  "empty_JSON_parse s =
     (if s = ''{}'' then Inr (JObject [])
      else if s = ''[]'' then Inr (JArray [])
      else Inl (Error ''SyntaxError'' ''Unexpected token''))"

section \<open>Properties of the request client\<close>

subsection \<open>Strings\<close>

lemma includes_str_iff: "includes_str s t \<longleftrightarrow> (\<exists>a b. s = a @ t @ b)"
proof (induction s)
  case Nil
  then show ?case by auto
next
  case (Cons c cs)
  show ?case
  proof
    assume "includes_str (c # cs) t"
    then consider "prefix t (c # cs)" | "includes_str cs t" by auto
    then show "\<exists>a b. c # cs = a @ t @ b"
    proof cases
      case 1
      then obtain b where "c # cs = t @ b" by (auto simp: prefix_def)
      then have "c # cs = [] @ t @ b" by simp
      then show ?thesis by blast
    next
      case 2
      with Cons.IH obtain a b where "cs = a @ t @ b" by blast
      then have "c # cs = (c # a) @ t @ b" by simp
      then show ?thesis by blast
    qed
  next
    assume "\<exists>a b. c # cs = a @ t @ b"
    then obtain a b where ab: "c # cs = a @ t @ b" by blast
    show "includes_str (c # cs) t"
    proof (cases a)
      case Nil
      with ab have "prefix t (c # cs)" by (simp add: prefix_def)
      then show ?thesis by simp
    next
      case (Cons x xs)
      with ab have "cs = xs @ t @ b" by simp
      with Cons.IH have "includes_str cs t" by blast
      then show ?thesis by simp
    qed
  qed
qed

lemma includes_str_append: "includes_str (a @ t @ b) t"
  by (auto simp: includes_str_iff)

lemma show_nat_503: "show_nat 503 = ''503''"
  by code_simp

lemma show_nat_404: "show_nat 404 = ''404''"
  by code_simp

lemma error_503_message: "includes_str (''Yandex Webmaster error '' @ show_nat 503 @ '': '' @ b) ''503''"
  unfolding show_nat_503 using includes_str_append [of "''Yandex Webmaster error ''" "''503''" "'': '' @ b"]
  by simp

lemma error_503_retryable:
  "isRetryableError (new_Error (''Yandex Webmaster error '' @ show_nat 503 @ '': '' @ b))"
  using error_503_message [of b] by (simp add: new_Error_def)

lemma not_ok_503: "\<not> ok 503"
  by (simp add: ok_def)

subsection \<open>One attempt, and the three ways an attempt continues\<close>

lemma attempt_once_world:
  "snd (attempt_once c parse fetch u options w) = w\<lparr>requests := requests w @ [fetch_request c u options]\<rparr>"
  by (simp add: attempt_once_def Let_def split: fetch_result.split)

lemma attempt_once_not_ok:
  assumes "fetch (length (requests w)) (fetch_request c u options) = Response status txt"
    and "\<not> ok status"
  shows "attempt_once c parse fetch u options w =
    (Inl (new_Error (''Yandex Webmaster error '' @ show_nat status @ '': '' @ txt)),
     w\<lparr>requests := requests w @ [fetch_request c u options]\<rparr>)"
  using assms by (simp add: attempt_once_def Let_def)

lemma attempt_once_ok:
  assumes "fetch (length (requests w)) (fetch_request c u options) = Response status txt"
    and "ok status"
  shows "attempt_once c parse fetch u options w =
    (if txt \<noteq> [] then parse txt else Inr (JObject []),
     w\<lparr>requests := requests w @ [fetch_request c u options]\<rparr>)"
  using assms by (simp add: attempt_once_def Let_def)

lemma makeRequest_resolved:
  "attempt_once c parse fetch u options w = (Inr v, w') \<Longrightarrow>
   makeRequest c parse fetch u options attempt w = (Inr v, w')"
  by (subst makeRequest.simps) simp

lemma makeRequest_retry:
  "attempt_once c parse fetch u options w = (Inl err, w') \<Longrightarrow>
   attempt < retries (config c) \<Longrightarrow> isRetryableError err \<Longrightarrow>
   makeRequest c parse fetch u options attempt w =
     makeRequest c parse fetch u options (attempt + 1) (delay (retryDelay (config c) * attempt) w')"
  by (subst makeRequest.simps) simp

lemma makeRequest_propagate:
  "attempt_once c parse fetch u options w = (Inl err, w') \<Longrightarrow>
   \<not> (attempt < retries (config c) \<and> isRetryableError err) \<Longrightarrow>
   makeRequest c parse fetch u options attempt w = (Inl err, w')"
  by (subst makeRequest.simps) auto

lemma retry_503_step:
  assumes f: "fetch (length (requests w)) (fetch_request c u options) = Response 503 b"
    and a: "attempt < retries (config c)"
  shows "makeRequest c parse fetch u options attempt w =
    makeRequest c parse fetch u options (attempt + 1)
      (delay (retryDelay (config c) * attempt) (w\<lparr>requests := requests w @ [fetch_request c u options]\<rparr>))"
proof -
  have "attempt_once c parse fetch u options w =
      (Inl (new_Error (''Yandex Webmaster error '' @ show_nat 503 @ '': '' @ b)),
       w\<lparr>requests := requests w @ [fetch_request c u options]\<rparr>)"
    using f not_ok_503 by (rule attempt_once_not_ok)
  then show ?thesis
    using a error_503_retryable by (rule makeRequest_retry)
qed

lemma propagate_503_step:
  assumes f: "fetch (length (requests w)) (fetch_request c u options) = Response 503 b"
    and a: "\<not> attempt < retries (config c)"
  shows "makeRequest c parse fetch u options attempt w =
    (Inl (new_Error (''Yandex Webmaster error 503: '' @ b)),
     w\<lparr>requests := requests w @ [fetch_request c u options]\<rparr>)"
proof -
  have "attempt_once c parse fetch u options w =
      (Inl (new_Error (''Yandex Webmaster error '' @ show_nat 503 @ '': '' @ b)),
       w\<lparr>requests := requests w @ [fetch_request c u options]\<rparr>)"
    using f not_ok_503 by (rule attempt_once_not_ok)
  moreover have "\<not> (attempt < retries (config c) \<and>
      isRetryableError (new_Error (''Yandex Webmaster error '' @ show_nat 503 @ '': '' @ b)))"
    using a by simp
  ultimately have "makeRequest c parse fetch u options attempt w =
      (Inl (new_Error (''Yandex Webmaster error '' @ show_nat 503 @ '': '' @ b)),
       w\<lparr>requests := requests w @ [fetch_request c u options]\<rparr>)"
    by (rule makeRequest_propagate)
  then show ?thesis by (simp add: show_nat_503)
qed

lemma resolve_step:
  assumes f: "fetch (length (requests w)) (fetch_request c u options) = Response status txt"
    and s: "ok status"
    and p: "(if txt \<noteq> [] then parse txt else Inr (JObject [])) = Inr v"
  shows "makeRequest c parse fetch u options attempt w =
    (Inr v, w\<lparr>requests := requests w @ [fetch_request c u options]\<rparr>)"
proof -
  have "attempt_once c parse fetch u options w =
      (if txt \<noteq> [] then parse txt else Inr (JObject []),
       w\<lparr>requests := requests w @ [fetch_request c u options]\<rparr>)"
    using f s by (rule attempt_once_ok)
  then have "attempt_once c parse fetch u options w =
      (Inr v, w\<lparr>requests := requests w @ [fetch_request c u options]\<rparr>)"
    using p by simp
  then show ?thesis by (rule makeRequest_resolved)
qed

subsection \<open>The trace of a logical call\<close>

lemma makeRequest_trace:
  "\<exists>k\<ge>1. (k = 1 \<or> attempt + int k - 1 \<le> retries (config c)) \<and>
     requests (snd (makeRequest c parse fetch u options attempt w)) =
       requests w @ replicate k (fetch_request c u options) \<and>
     delays (snd (makeRequest c parse fetch u options attempt w)) =
       delays w @ map (\<lambda>i. retryDelay (config c) * (attempt + int i)) [0..<k - 1] \<and>
     diagnostics (snd (makeRequest c parse fetch u options attempt w)) = diagnostics w"
proof (induction c parse fetch u options attempt w rule: makeRequest.induct)
  case (1 c parse fetch u options attempt w)
  let ?req = "fetch_request c u options"
  obtain out w' where once: "attempt_once c parse fetch u options w = (out, w')"
    by (cases "attempt_once c parse fetch u options w")
  have w': "w' = w\<lparr>requests := requests w @ [?req]\<rparr>"
    using attempt_once_world [of c parse fetch u options w] once by simp
  show ?case
  proof (cases "\<exists>err. out = Inl err \<and> attempt < retries (config c) \<and> isRetryableError err")
    case False
    have "snd (makeRequest c parse fetch u options attempt w) = w'"
    proof (cases out)
      case (Inl err)
      with False once show ?thesis by (simp add: makeRequest_propagate)
    next
      case (Inr v)
      with once show ?thesis by (simp add: makeRequest_resolved)
    qed
    then show ?thesis
      by (intro exI [of _ 1]) (simp add: w')
  next
    case True
    then obtain err where err: "out = Inl err" "attempt < retries (config c)" "isRetryableError err"
      by blast
    let ?w2 = "delay (retryDelay (config c) * attempt) w'"
    have step: "makeRequest c parse fetch u options attempt w =
        makeRequest c parse fetch u options (attempt + 1) ?w2"
      using once err by (simp add: makeRequest_retry)
    from "1.IH" once err
    obtain k where k: "k \<ge> 1" "k = 1 \<or> attempt + 1 + int k - 1 \<le> retries (config c)"
      "requests (snd (makeRequest c parse fetch u options (attempt + 1) ?w2)) =
         requests ?w2 @ replicate k ?req"
      "delays (snd (makeRequest c parse fetch u options (attempt + 1) ?w2)) =
         delays ?w2 @ map (\<lambda>i. retryDelay (config c) * (attempt + 1 + int i)) [0..<k - 1]"
      "diagnostics (snd (makeRequest c parse fetch u options (attempt + 1) ?w2)) = diagnostics ?w2"
      by auto
    have m: "map (\<lambda>i. retryDelay (config c) * (attempt + int i)) [0..<Suc k - 1] =
        (retryDelay (config c) * attempt) #
          map (\<lambda>i. retryDelay (config c) * (attempt + 1 + int i)) [0..<k - 1]"
    proof -
      have "[Suc 0..<k] = map Suc [0..<k - 1]"
        using k(1) by (simp add: map_Suc_upt)
      then have "map (\<lambda>i. retryDelay (config c) * (attempt + int i)) [Suc 0..<k] =
          map (\<lambda>i. retryDelay (config c) * (attempt + 1 + int i)) [0..<k - 1]"
        by (simp add: comp_def add.assoc add.commute)
      then show ?thesis
        using k(1) by (simp add: upt_conv_Cons del: upt_Suc)
    qed
    show ?thesis
    proof (intro exI [of _ "Suc k"] conjI)
      show "1 \<le> Suc k" by simp
      show "Suc k = 1 \<or> attempt + int (Suc k) - 1 \<le> retries (config c)"
        using k(1,2) err(2) by auto
      show "requests (snd (makeRequest c parse fetch u options attempt w)) =
          requests w @ replicate (Suc k) ?req"
        using k(3) by (simp add: step w' delay_def replicate_app_Cons_same)
      show "delays (snd (makeRequest c parse fetch u options attempt w)) =
          delays w @ map (\<lambda>i. retryDelay (config c) * (attempt + int i)) [0..<Suc k - 1]"
        unfolding m using k(4) by (simp add: step w' delay_def)
      show "diagnostics (snd (makeRequest c parse fetch u options attempt w)) = diagnostics w"
        using k(5) by (simp add: step w' delay_def)
    qed
  qed
qed


lemma two_failures_then_success:
  assumes r: "retries (config c) = 3"
    and f0: "fetch (length (requests w)) (fetch_request c u options) = Response 503 b1"
    and f1: "fetch (length (requests w) + 1) (fetch_request c u options) = Response 503 b2"
    and f2: "fetch (length (requests w) + 2) (fetch_request c u options) = Response status txt"
    and s: "ok status"
    and p: "(if txt \<noteq> [] then parse txt else Inr (JObject [])) = Inr v"
  shows "makeRequest c parse fetch u options 1 w =
    (Inr v, w\<lparr>requests := requests w @ replicate 3 (fetch_request c u options),
              delays := delays w @ [retryDelay (config c) * 1, retryDelay (config c) * 2]\<rparr>)"
proof -
  let ?req = "fetch_request c u options"
  let ?d = "retryDelay (config c)"
  let ?w1 = "delay (?d * 1) (w\<lparr>requests := requests w @ [?req]\<rparr>)"
  let ?w2 = "delay (?d * 2) (?w1\<lparr>requests := requests ?w1 @ [?req]\<rparr>)"
  have "makeRequest c parse fetch u options 1 w = makeRequest c parse fetch u options (1 + 1) ?w1"
    using f0 r by (intro retry_503_step) simp_all
  also have "\<dots> = makeRequest c parse fetch u options (2 + 1) ?w2"
  proof -
    have "fetch (length (requests ?w1)) ?req = Response 503 b2"
      using f1 by (simp add: delay_def)
    moreover have "(2::int) < retries (config c)" using r by simp
    ultimately have "makeRequest c parse fetch u options 2 ?w1 =
        makeRequest c parse fetch u options (2 + 1) ?w2"
      by (rule retry_503_step)
    then show ?thesis by simp
  qed
  also have "\<dots> = (Inr v, ?w2\<lparr>requests := requests ?w2 @ [?req]\<rparr>)"
  proof -
    have "fetch (length (requests ?w2)) ?req = Response status txt"
      using f2 by (simp add: delay_def)
    then show ?thesis using s p by (rule resolve_step)
  qed
  finally show ?thesis
    by (simp add: delay_def numeral_3_eq_3)
qed

lemma three_failures:
  assumes r: "retries (config c) = 3"
    and f0: "fetch (length (requests w)) (fetch_request c u options) = Response 503 b1"
    and f1: "fetch (length (requests w) + 1) (fetch_request c u options) = Response 503 b2"
    and f2: "fetch (length (requests w) + 2) (fetch_request c u options) = Response 503 b3"
  shows "makeRequest c parse fetch u options 1 w =
    (Inl (new_Error (''Yandex Webmaster error 503: '' @ b3)),
     w\<lparr>requests := requests w @ replicate 3 (fetch_request c u options),
       delays := delays w @ [retryDelay (config c) * 1, retryDelay (config c) * 2]\<rparr>)"
proof -
  let ?req = "fetch_request c u options"
  let ?d = "retryDelay (config c)"
  let ?w1 = "delay (?d * 1) (w\<lparr>requests := requests w @ [?req]\<rparr>)"
  let ?w2 = "delay (?d * 2) (?w1\<lparr>requests := requests ?w1 @ [?req]\<rparr>)"
  have "makeRequest c parse fetch u options 1 w = makeRequest c parse fetch u options (1 + 1) ?w1"
    using f0 r by (intro retry_503_step) simp_all
  also have "\<dots> = makeRequest c parse fetch u options (2 + 1) ?w2"
  proof -
    have "fetch (length (requests ?w1)) ?req = Response 503 b2"
      using f1 by (simp add: delay_def)
    moreover have "(2::int) < retries (config c)" using r by simp
    ultimately have "makeRequest c parse fetch u options 2 ?w1 =
        makeRequest c parse fetch u options (2 + 1) ?w2"
      by (rule retry_503_step)
    then show ?thesis by simp
  qed
  also have "\<dots> = (Inl (new_Error (''Yandex Webmaster error 503: '' @ b3)),
      ?w2\<lparr>requests := requests ?w2 @ [?req]\<rparr>)"
  proof -
    have "fetch (length (requests ?w2)) ?req = Response 503 b3"
      using f2 by (simp add: delay_def)
    moreover have "\<not> (2 + 1 :: int) < retries (config c)" using r by simp
    ultimately show ?thesis by (rule propagate_503_step)
  qed
  finally show ?thesis
    by (simp add: delay_def numeral_3_eq_3)
qed

lemma default_client_config:
  "retries (config default_client) = 3" "retryDelay (config default_client) = 1000"
  "timeout (config default_client) = 30000"
  by (simp_all add: default_client_def new_client_def no_config_def or_default_def)

subsection \<open>The retry policy\<close>

text \<open>
  Claim C1. When an attempt fails with an error that is classified retryable, the client
  waits \<open>retryDelay * attempt\<close> milliseconds and retries with \<open>attempt + 1\<close> if the
  attempt number is strictly below the configured ceiling, and propagates the failure
  otherwise. With a ceiling of 3, a transport that answers 503 to the first two attempts
  and then succeeds gives the parsed result after exactly three physical requests, with
  waits of \<open>retryDelay * 1\<close> and \<open>retryDelay * 2\<close>; a transport that always answers 503
  is asked exactly three times, with the same two waits, and the failure that propagates
  has a message containing \<open>503\<close>.
\<close>

theorem makeRequest_retry_policy:
  "(\<forall>err w'.
      attempt_once c parse fetch u options w = (Inl err, w') \<and> isRetryableError err \<longrightarrow>
      makeRequest c parse fetch u options attempt w =
        (if attempt < retries (config c)
         then makeRequest c parse fetch u options (attempt + 1)
                (delay (retryDelay (config c) * attempt) w')
         else (Inl err, w')))
   \<and> (\<forall>b1 b2 status txt v.
      retries (config c) = 3 \<and>
      fetch (length (requests w)) (fetch_request c u options) = Response 503 b1 \<and>
      fetch (length (requests w) + 1) (fetch_request c u options) = Response 503 b2 \<and>
      fetch (length (requests w) + 2) (fetch_request c u options) = Response status txt \<and>
      ok status \<and> (if txt \<noteq> [] then parse txt else Inr (JObject [])) = Inr v \<longrightarrow>
      makeRequest c parse fetch u options 1 w =
        (Inr v, w\<lparr>requests := requests w @ replicate 3 (fetch_request c u options),
                  delays := delays w @ [retryDelay (config c) * 1, retryDelay (config c) * 2]\<rparr>))
   \<and> (\<forall>b.
      retries (config c) = 3 \<and>
      (\<forall>n. fetch n (fetch_request c u options) = Response 503 (b n)) \<longrightarrow>
      makeRequest c parse fetch u options 1 w =
        (Inl (new_Error (''Yandex Webmaster error 503: '' @ b (length (requests w) + 2))),
         w\<lparr>requests := requests w @ replicate 3 (fetch_request c u options),
           delays := delays w @ [retryDelay (config c) * 1, retryDelay (config c) * 2]\<rparr>)
      \<and> includes_str (''Yandex Webmaster error 503: '' @ b (length (requests w) + 2)) ''503'')"
proof -
  have p1: "\<forall>err w'.
      attempt_once c parse fetch u options w = (Inl err, w') \<and> isRetryableError err \<longrightarrow>
      makeRequest c parse fetch u options attempt w =
        (if attempt < retries (config c)
         then makeRequest c parse fetch u options (attempt + 1)
                (delay (retryDelay (config c) * attempt) w')
         else (Inl err, w'))"
  proof (intro allI impI)
    fix err w'
    assume a: "attempt_once c parse fetch u options w = (Inl err, w') \<and> isRetryableError err"
    show "makeRequest c parse fetch u options attempt w =
        (if attempt < retries (config c)
         then makeRequest c parse fetch u options (attempt + 1)
                (delay (retryDelay (config c) * attempt) w')
         else (Inl err, w'))"
    proof (cases "attempt < retries (config c)")
      case True
      with a show ?thesis by (simp add: makeRequest_retry)
    next
      case False
      with a show ?thesis by (simp add: makeRequest_propagate)
    qed
  qed
  have p2: "\<forall>b1 b2 status txt v.
      retries (config c) = 3 \<and>
      fetch (length (requests w)) (fetch_request c u options) = Response 503 b1 \<and>
      fetch (length (requests w) + 1) (fetch_request c u options) = Response 503 b2 \<and>
      fetch (length (requests w) + 2) (fetch_request c u options) = Response status txt \<and>
      ok status \<and> (if txt \<noteq> [] then parse txt else Inr (JObject [])) = Inr v \<longrightarrow>
      makeRequest c parse fetch u options 1 w =
        (Inr v, w\<lparr>requests := requests w @ replicate 3 (fetch_request c u options),
                  delays := delays w @ [retryDelay (config c) * 1, retryDelay (config c) * 2]\<rparr>)"
  proof (intro allI impI)
    fix b1 b2 status bt v
    assume "retries (config c) = 3 \<and>
        fetch (length (requests w)) (fetch_request c u options) = Response 503 b1 \<and>
        fetch (length (requests w) + 1) (fetch_request c u options) = Response 503 b2 \<and>
        fetch (length (requests w) + 2) (fetch_request c u options) = Response status bt \<and>
        ok status \<and> (if bt \<noteq> [] then parse bt else Inr (JObject [])) = Inr v"
    then have "retries (config c) = 3"
      and "fetch (length (requests w)) (fetch_request c u options) = Response 503 b1"
      and "fetch (length (requests w) + 1) (fetch_request c u options) = Response 503 b2"
      and "fetch (length (requests w) + 2) (fetch_request c u options) = Response status bt"
      and "ok status" and "(if bt \<noteq> [] then parse bt else Inr (JObject [])) = Inr v"
      by blast+
    then show "makeRequest c parse fetch u options 1 w =
        (Inr v, w\<lparr>requests := requests w @ replicate 3 (fetch_request c u options),
                  delays := delays w @ [retryDelay (config c) * 1, retryDelay (config c) * 2]\<rparr>)"
      by (rule two_failures_then_success)
  qed
  have p3: "\<forall>b.
      retries (config c) = 3 \<and>
      (\<forall>n. fetch n (fetch_request c u options) = Response 503 (b n)) \<longrightarrow>
      makeRequest c parse fetch u options 1 w =
        (Inl (new_Error (''Yandex Webmaster error 503: '' @ b (length (requests w) + 2))),
         w\<lparr>requests := requests w @ replicate 3 (fetch_request c u options),
           delays := delays w @ [retryDelay (config c) * 1, retryDelay (config c) * 2]\<rparr>)
      \<and> includes_str (''Yandex Webmaster error 503: '' @ b (length (requests w) + 2)) ''503''"
  proof (intro allI impI conjI)
    fix b
    assume "retries (config c) = 3 \<and>
        (\<forall>n. fetch n (fetch_request c u options) = Response 503 (b n))"
    then have "retries (config c) = 3"
      and "fetch (length (requests w)) (fetch_request c u options) = Response 503 (b (length (requests w)))"
      and "fetch (length (requests w) + 1) (fetch_request c u options) = Response 503 (b (length (requests w) + 1))"
      and "fetch (length (requests w) + 2) (fetch_request c u options) = Response 503 (b (length (requests w) + 2))"
      by blast+
    then show "makeRequest c parse fetch u options 1 w =
        (Inl (new_Error (''Yandex Webmaster error 503: '' @ b (length (requests w) + 2))),
         w\<lparr>requests := requests w @ replicate 3 (fetch_request c u options),
           delays := delays w @ [retryDelay (config c) * 1, retryDelay (config c) * 2]\<rparr>)"
      by (rule three_failures)
  next
    fix b
    show "includes_str (''Yandex Webmaster error 503: '' @ b (length (requests w) + 2)) ''503''"
      using error_503_message [of "b (length (requests w) + 2)"] by (simp add: show_nat_503)
  qed
  show ?thesis
    by (rule conjI [OF p1 conjI [OF p2 p3]])
qed

text \<open>
  The three parts of C1 on the default client (ceiling 3, delay 1000 ms): the scripted
  transport, whose third answer is the JSON text \<open>{}\<close>, the transport that always answers
  503, and the last attempt of the latter, which is at the ceiling and propagates.
\<close>

theorem makeRequest_retry_policy_witness:
  "makeRequest default_client empty_JSON_parse
      (scripted [Response 503 ''busy'', Response 503 ''busy''] (Response 200 ''{}''))
      ''u'' no_options 1 empty_world =
     (Inr (JObject []),
      \<lparr>requests = replicate 3 (fetch_request default_client ''u'' no_options),
        delays = [1000, 2000], diagnostics = []\<rparr>)
   \<and> makeRequest default_client empty_JSON_parse (always (Response 503 ''busy'')) ''u'' no_options 1 empty_world =
     (Inl (Error ''Error'' ''Yandex Webmaster error 503: busy''),
      \<lparr>requests = replicate 3 (fetch_request default_client ''u'' no_options),
        delays = [1000, 2000], diagnostics = []\<rparr>)
   \<and> makeRequest default_client empty_JSON_parse (always (Response 503 ''busy'')) ''u'' no_options 3
        (empty_world\<lparr>requests := replicate 2 (fetch_request default_client ''u'' no_options)\<rparr>) =
     (Inl (Error ''Error'' ''Yandex Webmaster error 503: busy''),
      \<lparr>requests = replicate 3 (fetch_request default_client ''u'' no_options),
        delays = [], diagnostics = []\<rparr>)"
proof -
  let ?c = default_client
  let ?req = "fetch_request ?c ''u'' no_options"
  let ?script = "scripted [Response 503 ''busy'', Response 503 ''busy''] (Response 200 ''{}'')"
  let ?w2 = "empty_world\<lparr>requests := replicate 2 ?req\<rparr>"
  note t1 = makeRequest_retry_policy [of ?c empty_JSON_parse ?script "''u''" no_options empty_world 1]
  note t2 = makeRequest_retry_policy
    [of ?c empty_JSON_parse "always (Response 503 ''busy'')" "''u''" no_options empty_world 1]
  note t3 = makeRequest_retry_policy
    [of ?c empty_JSON_parse "always (Response 503 ''busy'')" "''u''" no_options ?w2 3]
  have a: "makeRequest ?c empty_JSON_parse ?script ''u'' no_options 1 empty_world =
     (Inr (JObject []),
      \<lparr>requests = replicate 3 ?req, delays = [1000, 2000], diagnostics = []\<rparr>)"
    using t1 [THEN conjunct2, THEN conjunct1, THEN spec, THEN spec, THEN spec, THEN spec, THEN spec,
        of "''busy''" "''busy''" 200 "''{}''" "JObject []"]
    by (simp add: default_client_config scripted_def empty_world_def ok_def empty_JSON_parse_def)
  have b: "makeRequest ?c empty_JSON_parse (always (Response 503 ''busy'')) ''u'' no_options 1 empty_world =
     (Inl (Error ''Error'' ''Yandex Webmaster error 503: busy''),
      \<lparr>requests = replicate 3 ?req, delays = [1000, 2000], diagnostics = []\<rparr>)"
    using t2 [THEN conjunct2, THEN conjunct2, THEN spec, of "\<lambda>n. ''busy''"]
    by (simp add: default_client_config always_def empty_world_def new_Error_def)
  have once: "attempt_once ?c empty_JSON_parse (always (Response 503 ''busy'')) ''u'' no_options ?w2 =
      (Inl (Error ''Error'' ''Yandex Webmaster error 503: busy''), ?w2\<lparr>requests := requests ?w2 @ [?req]\<rparr>)"
    by (simp add: attempt_once_def always_def ok_def new_Error_def show_nat_503)
  have "isRetryableError (Error ''Error'' ''Yandex Webmaster error 503: busy'')"
    using error_503_retryable [of "''busy''"] by (simp add: new_Error_def show_nat_503)
  with once t3 [THEN conjunct1, THEN spec, THEN spec, of "Error ''Error'' ''Yandex Webmaster error 503: busy''" "?w2\<lparr>requests := requests ?w2 @ [?req]\<rparr>"]
  have c: "makeRequest ?c empty_JSON_parse (always (Response 503 ''busy'')) ''u'' no_options 3 ?w2 =
     (Inl (Error ''Error'' ''Yandex Webmaster error 503: busy''),
      \<lparr>requests = replicate 3 ?req, delays = [], diagnostics = []\<rparr>)"
    by (simp add: default_client_config empty_world_def numeral_3_eq_3 numeral_2_eq_2)
  from a b c show ?thesis by blast
qed


subsection \<open>One outcome, boundedly many attempts\<close>

text \<open>
  Claim C8. A logical call of the request client returns exactly one outcome, a payload or
  an error, whatever the transport does: \<open>makeRequest\<close> is a total function, so the call
  started at attempt 1 has a result, and that result is reached after \<open>k\<close> physical
  requests with \<open>1 \<le> k \<le> max 1 retries\<close>. The waits between them are
  \<open>retryDelay * 1, \<dots>, retryDelay * (k - 1)\<close>: the attempt counter starts at 1 and grows
  by one per retry. Every operation of the client either fails validation with the world
  untouched or is such a call started at attempt 1.
\<close>

theorem makeRequest_one_outcome_bounded_attempts:
  "\<exists>out w' k.
     makeRequest c parse fetch u options 1 w = (out, w') \<and>
     ((\<exists>v. out = Inr v) \<noteq> (\<exists>err. out = Inl err)) \<and>
     1 \<le> k \<and> int k \<le> max 1 (retries (config c)) \<and>
     requests w' = requests w @ replicate k (fetch_request c u options) \<and>
     delays w' = delays w @ map (\<lambda>i. retryDelay (config c) * int i) [1..<k] \<and>
     diagnostics w' = diagnostics w \<and>
     (invoke c parse fetch op w = makeRequest c parse fetch (request_url op) (request_options op) 1 w \<or>
      (\<exists>err. invoke c parse fetch op w = (Inl err, w)))"
proof -
  obtain out w' where run: "makeRequest c parse fetch u options 1 w = (out, w')"
    by (cases "makeRequest c parse fetch u options 1 w")
  from makeRequest_trace [of 1 c parse fetch u options w] run
  obtain k where k: "1 \<le> k" "k = 1 \<or> 1 + int k - 1 \<le> retries (config c)"
    "requests w' = requests w @ replicate k (fetch_request c u options)"
    "delays w' = delays w @ map (\<lambda>i. retryDelay (config c) * (1 + int i)) [0..<k - 1]"
    "diagnostics w' = diagnostics w"
    by auto
  have "[1..<k] = map Suc [0..<k - 1]"
    using k(1) by (simp add: map_Suc_upt)
  then have d: "map (\<lambda>i. retryDelay (config c) * int i) [1..<k] =
      map (\<lambda>i. retryDelay (config c) * (1 + int i)) [0..<k - 1]"
    by (simp add: comp_def)
  have one: "(\<exists>v. out = Inr v) \<noteq> (\<exists>err. out = Inl err)"
    by (cases out) simp_all
  have bound: "int k \<le> max 1 (retries (config c))"
    using k(2) by auto
  have inv: "invoke c parse fetch op w =
        makeRequest c parse fetch (request_url op) (request_options op) 1 w \<or>
      (\<exists>err. invoke c parse fetch op w = (Inl err, w))"
    by (cases "validateRequired (validated_object op) (required_fields op)")
      (simp_all add: invoke_def)
  from run one k(1) bound k(3) k(4) k(5) inv show ?thesis
    unfolding d [symmetric] by blast
qed


theorem makeRequest_one_outcome_bounded_attempts_witness:
  "\<exists>out w' k.
     makeRequest default_client empty_JSON_parse (always (Response 503 ''busy'')) ''u'' no_options 1 empty_world = (out, w') \<and>
     1 \<le> k \<and> int k \<le> 3 \<and> length (requests w') = k \<and> length (delays w') = k - 1"
  using makeRequest_one_outcome_bounded_attempts
    [of default_client empty_JSON_parse "always (Response 503 ''busy'')" "''u''" no_options empty_world getUserId]
  by (auto simp: default_client_config empty_world_def)


section \<open>Properties of parameter validation\<close>












section \<open>Properties of the error boundary\<close>




text \<open>
  Claim C3, as stated: when the handler resolves, the wrapper's output equals the
  handler's output and \<open>isError\<close> is absent from it. The second half fails for a handler
  that itself resolves with a result carrying \<open>isError\<close>: the wrapper hands that result
  on, flag included.
\<close>

theorem withErrorHandling_keeps_handler_flag:
  "resolving flagged_result () empty_world = (Inr flagged_result, empty_world)
   \<and> withErrorHandling (resolving flagged_result) () empty_world = (Inr flagged_result, empty_world)
   \<and> isError flagged_result = Some True"
  by (simp add: withErrorHandling_def resolving_def flagged_result_def)

text \<open>
  Claim C3, amended. When the handler resolves, the wrapper resolves with exactly the
  handler's result and the handler's world, untouched; the wrapper adds no \<open>isError\<close>
  flag, so \<open>isError\<close> is absent from the wrapper's result exactly when it is absent from
  the handler's.
\<close>

theorem withErrorHandling_passes_through:
  assumes "handler params w = (Inr result, w')"
  shows "withErrorHandling handler params w = (Inr result, w')
    \<and> (\<forall>out w''. withErrorHandling handler params w = (Inr out, w'') \<longrightarrow>
          out = result \<and> w'' = w' \<and> isError out = isError result)"
  using assms by (simp add: withErrorHandling_def)

theorem withErrorHandling_passes_through_witness:
  "withErrorHandling (resolving (text_result ''ok'')) () empty_world = (Inr (text_result ''ok''), empty_world)
   \<and> isError (text_result ''ok'') = None"
  using withErrorHandling_passes_through
    [of "resolving (text_result ''ok'')" "()" empty_world "text_result ''ok''" empty_world]
  by (simp add: resolving_def text_result_def)

section \<open>Properties of the retry classification\<close>

subsection \<open>What the message of an upstream error mentions\<close>

lemma includes_str_grow: "includes_str s t \<Longrightarrow> includes_str (a @ s @ b) t"
proof -
  assume "includes_str s t"
  then obtain x y where "s = x @ t @ y" by (auto simp: includes_str_iff)
  then have "a @ s @ b = (a @ x) @ t @ (y @ b)" by simp
  then show ?thesis unfolding includes_str_iff by blast
qed

lemma includes_str_split:
  assumes c: "c \<notin> set t" and i: "includes_str (a @ c # b) t"
  shows "includes_str a t \<or> includes_str b t"
proof -
  from i obtain x y where e: "a @ c # b = x @ t @ y"
    by (auto simp: includes_str_iff)
  then consider us where "a = x @ us" "us @ c # b = t @ y"
    | us where "a @ us = x" "c # b = us @ t @ y"
    by (auto simp: append_eq_append_conv2)
  then show ?thesis
  proof cases
    case 1
    from 1(2) consider vs where "us = t @ vs" | vs where "us @ vs = t" "c # b = vs @ y"
      by (auto simp: append_eq_append_conv2)
    then show ?thesis
    proof cases
      case 1
      with \<open>a = x @ us\<close> have "a = x @ t @ vs" by simp
      then show ?thesis unfolding includes_str_iff by blast
    next
      case 2
      show ?thesis
      proof (cases vs)
        case Nil
        with 2 \<open>a = x @ us\<close> have "a = x @ t @ []" by simp
        then show ?thesis unfolding includes_str_iff by blast
      next
        case (Cons v vs')
        with 2 c show ?thesis by auto
      qed
    qed
  next
    case 2
    show ?thesis
    proof (cases us)
      case Nil
      with 2(2) have "c # b = t @ y" by simp
      with c have "t = []" by (cases t) auto
      then have "a = a @ t @ []" by simp
      then show ?thesis unfolding includes_str_iff by blast
    next
      case (Cons v us')
      with 2(2) have "b = us' @ t @ y" by simp
      then show ?thesis unfolding includes_str_iff by blast
    qed
  qed
qed

lemma isRetryableError_new_Error:
  "isRetryableError (new_Error m) = mentions_retryable_status m"
  by (simp add: new_Error_def mentions_retryable_status_def)

lemma prefix_mentions_nothing: "\<not> mentions_retryable_status ''Yandex Webmaster error''"
  by (simp add: mentions_retryable_status_def)

lemma message_mentions:
  "mentions_retryable_status (''Yandex Webmaster error '' @ show_nat status @ '': '' @ txt) =
     (mentions_retryable_status (show_nat status) \<or> mentions_retryable_status txt)"
proof -
  have split: "includes_str (''Yandex Webmaster error '' @ show_nat status @ '': '' @ txt) t =
      (includes_str (show_nat status) t \<or> includes_str txt t)"
    if t: "CHR '' '' \<notin> set t" "CHR '':'' \<notin> set t" "\<not> includes_str ''Yandex Webmaster error'' t" "t \<noteq> []"
    for t
  proof
    assume "includes_str (''Yandex Webmaster error '' @ show_nat status @ '': '' @ txt) t"
    then have "includes_str ((''Yandex Webmaster error '' @ show_nat status) @ CHR '':'' # ('' '' @ txt)) t"
      by simp
    with t(2) have "includes_str (''Yandex Webmaster error '' @ show_nat status) t \<or> includes_str ('' '' @ txt) t"
      by (rule includes_str_split)
    then show "includes_str (show_nat status) t \<or> includes_str txt t"
    proof
      assume "includes_str (''Yandex Webmaster error '' @ show_nat status) t"
      then have "includes_str (''Yandex Webmaster error'' @ CHR '' '' # show_nat status) t" by simp
      with t(1) have "includes_str ''Yandex Webmaster error'' t \<or> includes_str (show_nat status) t"
        by (rule includes_str_split)
      with t(3) show ?thesis by simp
    next
      assume "includes_str ('' '' @ txt) t"
      then have "includes_str ([] @ CHR '' '' # txt) t" by simp
      with t(1) have "includes_str [] t \<or> includes_str txt t"
        by (rule includes_str_split)
      with t(4) show ?thesis by simp
    qed
  next
    assume "includes_str (show_nat status) t \<or> includes_str txt t"
    then show "includes_str (''Yandex Webmaster error '' @ show_nat status @ '': '' @ txt) t"
    proof
      assume "includes_str (show_nat status) t"
      then show ?thesis by (rule includes_str_grow)
    next
      assume "includes_str txt t"
      then have "includes_str ((''Yandex Webmaster error '' @ show_nat status @ '': '') @ txt @ []) t"
        by (rule includes_str_grow)
      then show ?thesis by simp
    qed
  qed
  have "includes_str (''Yandex Webmaster error '' @ show_nat status @ '': '' @ txt) ''500'' =
      (includes_str (show_nat status) ''500'' \<or> includes_str txt ''500'')"
    by (rule split) simp_all
  moreover have "includes_str (''Yandex Webmaster error '' @ show_nat status @ '': '' @ txt) ''502'' =
      (includes_str (show_nat status) ''502'' \<or> includes_str txt ''502'')"
    by (rule split) simp_all
  moreover have "includes_str (''Yandex Webmaster error '' @ show_nat status @ '': '' @ txt) ''503'' =
      (includes_str (show_nat status) ''503'' \<or> includes_str txt ''503'')"
    by (rule split) simp_all
  ultimately show ?thesis
    unfolding mentions_retryable_status_def by blast
qed

lemma retry_step:
  assumes f: "fetch (length (requests w)) (fetch_request c u options) = Response status txt"
    and s: "\<not> ok status"
    and m: "mentions_retryable_status (show_nat status) \<or> mentions_retryable_status txt"
    and a: "attempt < retries (config c)"
  shows "makeRequest c parse fetch u options attempt w =
    makeRequest c parse fetch u options (attempt + 1)
      (delay (retryDelay (config c) * attempt) (w\<lparr>requests := requests w @ [fetch_request c u options]\<rparr>))"
proof -
  have "attempt_once c parse fetch u options w =
      (Inl (new_Error (''Yandex Webmaster error '' @ show_nat status @ '': '' @ txt)),
       w\<lparr>requests := requests w @ [fetch_request c u options]\<rparr>)"
    using f s by (rule attempt_once_not_ok)
  moreover have "isRetryableError (new_Error (''Yandex Webmaster error '' @ show_nat status @ '': '' @ txt))"
    unfolding isRetryableError_new_Error message_mentions using m by blast
  ultimately show ?thesis
    using a by (simp add: makeRequest_retry)
qed

lemma propagate_step:
  assumes f: "fetch (length (requests w)) (fetch_request c u options) = Response status txt"
    and s: "\<not> ok status"
    and m: "\<not> (attempt < retries (config c) \<and>
               (mentions_retryable_status (show_nat status) \<or> mentions_retryable_status txt))"
  shows "makeRequest c parse fetch u options attempt w =
    (Inl (new_Error (''Yandex Webmaster error '' @ show_nat status @ '': '' @ txt)),
     w\<lparr>requests := requests w @ [fetch_request c u options]\<rparr>)"
proof -
  have "attempt_once c parse fetch u options w =
      (Inl (new_Error (''Yandex Webmaster error '' @ show_nat status @ '': '' @ txt)),
       w\<lparr>requests := requests w @ [fetch_request c u options]\<rparr>)"
    using f s by (rule attempt_once_not_ok)
  moreover have "\<not> (attempt < retries (config c) \<and>
      isRetryableError (new_Error (''Yandex Webmaster error '' @ show_nat status @ '': '' @ txt)))"
    unfolding isRetryableError_new_Error message_mentions using m by blast
  ultimately show ?thesis
    by (rule makeRequest_propagate)
qed


lemma not_ok_404: "\<not> ok 404"
  by (simp add: ok_def)

lemma status_404_mentions_nothing: "\<not> mentions_retryable_status (show_nat 404)"
  by (simp add: show_nat_404 mentions_retryable_status_def)

subsection \<open>Statuses that are not retried\<close>

text \<open>
  Claim C5, as stated: a transport that answers 404 to the first attempt makes the client
  fail at once after exactly one physical attempt. It fails on the default client when the
  body of the 404 response contains \<open>503\<close>: the client asks three times and waits twice
  before the failure propagates.
\<close>

theorem status_404_with_503_in_body_is_retried:
  "makeRequest default_client empty_JSON_parse (always (Response 404 ''no page 503 here''))
      ''u'' no_options 1 empty_world =
     (Inl (Error ''Error'' ''Yandex Webmaster error 404: no page 503 here''),
      \<lparr>requests = replicate 3 (fetch_request default_client ''u'' no_options),
        delays = [1000, 2000], diagnostics = []\<rparr>)
   \<and> length (requests (snd (makeRequest default_client empty_JSON_parse
        (always (Response 404 ''no page 503 here'')) ''u'' no_options 1 empty_world))) \<noteq> 1"
proof -
  let ?c = default_client
  let ?fetch = "always (Response 404 ''no page 503 here'')"
  let ?req = "fetch_request ?c ''u'' no_options"
  let ?w1 = "delay (retryDelay (config ?c) * 1) (empty_world\<lparr>requests := requests empty_world @ [?req]\<rparr>)"
  let ?w2 = "delay (retryDelay (config ?c) * 2) (?w1\<lparr>requests := requests ?w1 @ [?req]\<rparr>)"
  have m: "mentions_retryable_status (show_nat 404) \<or> mentions_retryable_status ''no page 503 here''"
    by (simp add: mentions_retryable_status_def)
  have f: "?fetch n ?req = Response 404 ''no page 503 here''" for n
    by (simp add: always_def)
  have "makeRequest ?c empty_JSON_parse ?fetch ''u'' no_options 1 empty_world =
      makeRequest ?c empty_JSON_parse ?fetch ''u'' no_options (1 + 1) ?w1"
    using f not_ok_404 m by (rule retry_step) (simp add: default_client_config)
  also have "\<dots> = makeRequest ?c empty_JSON_parse ?fetch ''u'' no_options 2 ?w1"
    by simp
  also have "\<dots> = makeRequest ?c empty_JSON_parse ?fetch ''u'' no_options (2 + 1) ?w2"
    using f not_ok_404 m by (rule retry_step) (simp add: default_client_config)
  also have "\<dots> = (Inl (new_Error (''Yandex Webmaster error '' @ show_nat 404 @ '': '' @ ''no page 503 here'')),
      ?w2\<lparr>requests := requests ?w2 @ [?req]\<rparr>)"
    using f not_ok_404 by (rule propagate_step) (simp add: default_client_config)
  finally have run: "makeRequest ?c empty_JSON_parse ?fetch ''u'' no_options 1 empty_world =
     (Inl (Error ''Error'' ''Yandex Webmaster error 404: no page 503 here''),
      \<lparr>requests = replicate 3 ?req, delays = [1000, 2000], diagnostics = []\<rparr>)"
    by (simp add: new_Error_def show_nat_404 delay_def empty_world_def default_client_config
        numeral_3_eq_3)
  show ?thesis
    unfolding run by simp
qed

text \<open>
  Claim C5, amended. When the transport answers the first attempt with a status that is
  not \<open>ok\<close>, and neither the decimal status nor the body text contains \<open>500\<close>, \<open>502\<close>
  or \<open>503\<close>, the client fails at once: the error \<open>Yandex Webmaster error <status>:
  <body>\<close> propagates, its message contains the status, exactly one physical request was
  issued and nothing was waited for. 404 is such a status.
\<close>

theorem non_retryable_failure_propagates_at_once:
  assumes "fetch (length (requests w)) (fetch_request c u options) = Response status txt"
    and "\<not> ok status"
    and "\<not> mentions_retryable_status (show_nat status)"
    and "\<not> mentions_retryable_status txt"
  shows "makeRequest c parse fetch u options attempt w =
      (Inl (new_Error (''Yandex Webmaster error '' @ show_nat status @ '': '' @ txt)),
       w\<lparr>requests := requests w @ [fetch_request c u options]\<rparr>)
    \<and> includes_str (''Yandex Webmaster error '' @ show_nat status @ '': '' @ txt) (show_nat status)
    \<and> show_nat 404 = ''404'' \<and> \<not> ok 404 \<and> \<not> mentions_retryable_status (show_nat 404)"
proof -
  have "makeRequest c parse fetch u options attempt w =
      (Inl (new_Error (''Yandex Webmaster error '' @ show_nat status @ '': '' @ txt)),
       w\<lparr>requests := requests w @ [fetch_request c u options]\<rparr>)"
    using assms(1,2) by (rule propagate_step) (simp add: assms(3,4))
  moreover have "includes_str (''Yandex Webmaster error '' @ show_nat status @ '': '' @ txt) (show_nat status)"
    by (rule includes_str_append)
  ultimately show ?thesis
    using show_nat_404 not_ok_404 status_404_mentions_nothing by blast
qed

theorem non_retryable_failure_propagates_at_once_witness:
  "makeRequest default_client empty_JSON_parse (always (Response 404 ''no such host'')) ''u'' no_options 1 empty_world =
     (Inl (Error ''Error'' ''Yandex Webmaster error 404: no such host''),
      \<lparr>requests = [fetch_request default_client ''u'' no_options], delays = [], diagnostics = []\<rparr>)
   \<and> includes_str ''Yandex Webmaster error 404: no such host'' ''404''"
proof -
  have f: "always (Response 404 ''no such host'') (length (requests empty_world))
      (fetch_request default_client ''u'' no_options) = Response 404 ''no such host''"
    by (simp add: always_def)
  have b: "\<not> mentions_retryable_status ''no such host''"
    by (simp add: mentions_retryable_status_def)
  from non_retryable_failure_propagates_at_once
    [where fetch = "always (Response 404 ''no such host'')" and w = empty_world
      and parse = empty_JSON_parse and attempt = 1, OF f not_ok_404 status_404_mentions_nothing b]
  show ?thesis
    by (simp add: new_Error_def show_nat_404 empty_world_def)
qed

subsection \<open>Classification by message text\<close>



section \<open>Properties of URL building\<close>

subsection \<open>The query of the popular-queries scenario\<close>

lemma january_clicks_params:
  "popular_query_params january_clicks =
     [(''date_from'', ''2024-01-01''), (''date_to'', ''2024-01-31''), (''order_by'', ''TOTAL_CLICKS'')]"
  by (simp add: popular_query_params_def january_clicks_def new_URLSearchParams_def set_if_truthy_def
      get_field_def)

lemma january_clicks_query:
  "URLSearchParams_toString
     [(''date_from'', ''2024-01-01''), (''date_to'', ''2024-01-31''), (''order_by'', ''TOTAL_CLICKS'')] =
   ''date_from=2024-01-01&date_to=2024-01-31&order_by=TOTAL_CLICKS''"
  by code_simp

text \<open>
  Claim C7. For a popular-queries request with \<open>dateFrom = "2024-01-01"\<close>,
  \<open>dateTo = "2024-01-31"\<close>, \<open>orderBy = "TOTAL_CLICKS"\<close> and no optional field, the query
  string built is exactly \<open>date_from=2024-01-01&date_to=2024-01-31&order_by=TOTAL_CLICKS\<close>:
  the three keys in that order, and no \<open>limit\<close>, \<open>offset\<close> or \<open>query_indicator\<close> key.
  The URL requested, for any user and host, is the host URL followed by
  \<open>/search-queries/popular?\<close> and that query string.
\<close>

theorem popular_queries_query_string:
  "URLSearchParams_toString (popular_query_params january_clicks) =
     ''date_from=2024-01-01&date_to=2024-01-31&order_by=TOTAL_CLICKS''
   \<and> map fst (popular_query_params january_clicks) = [''date_from'', ''date_to'', ''order_by'']
   \<and> ''limit'' \<notin> set (map fst (popular_query_params january_clicks))
   \<and> ''offset'' \<notin> set (map fst (popular_query_params january_clicks))
   \<and> ''query_indicator'' \<notin> set (map fst (popular_query_params january_clicks))
   \<and> request_url (getPopularQueries userId hostId january_clicks) =
       hostUrl userId hostId
         ''/search-queries/popular?date_from=2024-01-01&date_to=2024-01-31&order_by=TOTAL_CLICKS''"
  unfolding request_url.simps january_clicks_params january_clicks_query by simp

subsection \<open>Optional numbers that are 0\<close>

lemma set_if_truthy_zero: "set_if_truthy k (Num 0) ps = ps"
  by (simp add: set_if_truthy_def)

lemma set_if_truthy_undefined: "set_if_truthy k Undefined ps = ps"
  by (simp add: set_if_truthy_def)

lemma keys_URLSearchParams_set:
  "set (map fst (URLSearchParams_set k v ps)) \<subseteq> insert k (set (map fst ps))"
proof (induction ps)
  case Nil
  show ?case by simp
next
  case (Cons p ps)
  obtain k' v' where p: "p = (k', v')" by (cases p)
  have "set (map fst (filter (\<lambda>(n, _). n \<noteq> k) ps)) \<subseteq> set (map fst ps)"
    by auto
  with Cons.IH show ?case
    unfolding p by auto
qed

lemma not_key_set_if_truthy:
  assumes "x \<noteq> k" and "x \<notin> fst ` set ps"
  shows "x \<notin> fst ` set (set_if_truthy k v ps)"
proof (cases "truthy v")
  case True
  have "set (map fst (URLSearchParams_set k (ToString v) ps)) \<subseteq> insert k (set (map fst ps))"
    by (rule keys_URLSearchParams_set)
  with assms have "x \<notin> fst ` set (URLSearchParams_set k (ToString v) ps)"
    by auto
  with True show ?thesis by (simp add: set_if_truthy_def)
next
  case False
  with assms(2) show ?thesis by (simp add: set_if_truthy_def)
qed

lemma paging_zero_limit: "paging_params (Num 0) off = paging_params Undefined off"
  by (simp add: paging_params_def set_if_truthy_zero set_if_truthy_undefined)

lemma paging_zero_offset: "paging_params lim (Num 0) = paging_params lim Undefined"
  by (simp add: paging_params_def set_if_truthy_zero set_if_truthy_undefined)

lemma get_field_with_field:
  "get_field (with_field k v obj) k' = (if k' = k then v else get_field obj k')"
  by (simp add: get_field_def with_field_def)

lemma map_of_without_field:
  "map_of (without_field k obj) k' = (if k' = k then None else map_of obj k')"
  by (induction obj) (auto simp: without_field_def)

lemma get_field_without_field:
  "get_field (without_field k obj) k' = (if k' = k then Undefined else get_field obj k')"
  by (simp add: get_field_def map_of_without_field)

lemma popular_zero_limit:
  "popular_query_params (with_field ''limit'' (Num 0) params) =
     popular_query_params (without_field ''limit'' params)"
  "popular_query_params (with_field ''limit'' Undefined params) =
     popular_query_params (without_field ''limit'' params)"
  by (simp_all add: popular_query_params_def get_field_with_field get_field_without_field
      set_if_truthy_zero set_if_truthy_undefined)

lemma popular_zero_offset:
  "popular_query_params (with_field ''offset'' (Num 0) params) =
     popular_query_params (without_field ''offset'' params)"
  "popular_query_params (with_field ''offset'' Undefined params) =
     popular_query_params (without_field ''offset'' params)"
  by (simp_all add: popular_query_params_def get_field_with_field get_field_without_field
      set_if_truthy_zero set_if_truthy_undefined)

lemma paging_no_limit_key: "''limit'' \<notin> set (map fst (paging_params (Num 0) off))"
  by (simp add: paging_params_def set_if_truthy_zero not_key_set_if_truthy)

lemma paging_no_offset_key: "''offset'' \<notin> set (map fst (paging_params lim (Num 0)))"
  by (simp add: paging_params_def set_if_truthy_zero not_key_set_if_truthy)

lemma popular_no_limit_key:
  "''limit'' \<notin> set (map fst (popular_query_params (with_field ''limit'' (Num 0) params)))"
  by (simp add: popular_query_params_def get_field_with_field set_if_truthy_zero
      not_key_set_if_truthy new_URLSearchParams_def)

lemma popular_no_offset_key:
  "''offset'' \<notin> set (map fst (popular_query_params (with_field ''offset'' (Num 0) params)))"
  by (simp add: popular_query_params_def get_field_with_field set_if_truthy_zero
      not_key_set_if_truthy new_URLSearchParams_def)

text \<open>
  Claim C9. In the five operations that take optional \<open>limit\<close> and \<open>offset\<close> numbers
  (popular queries, indexing samples, recrawl tasks, internal and external links), the
  value 0 for \<open>limit\<close> or for \<open>offset\<close> gives the same URL as not supplying the
  parameter, and the key is absent from the query: the key is set only when the value is
  truthy, and 0 is not. For popular queries, whose numbers are properties of the parameter
  object, not supplying is the object without the property, and also the object with the
  property \<open>undefined\<close>.
\<close>

theorem zero_limit_or_offset_is_omitted:
  "request_url (getPopularQueries userId hostId (with_field ''limit'' (Num 0) params)) =
     request_url (getPopularQueries userId hostId (without_field ''limit'' params))
   \<and> request_url (getPopularQueries userId hostId (with_field ''limit'' (Num 0) params)) =
     request_url (getPopularQueries userId hostId (with_field ''limit'' Undefined params))
   \<and> request_url (getPopularQueries userId hostId (with_field ''offset'' (Num 0) params)) =
     request_url (getPopularQueries userId hostId (without_field ''offset'' params))
   \<and> request_url (getPopularQueries userId hostId (with_field ''offset'' (Num 0) params)) =
     request_url (getPopularQueries userId hostId (with_field ''offset'' Undefined params))
   \<and> request_url (getIndexingSamples userId hostId (Num 0) off) =
     request_url (getIndexingSamples userId hostId Undefined off)
   \<and> request_url (getIndexingSamples userId hostId lim (Num 0)) =
     request_url (getIndexingSamples userId hostId lim Undefined)
   \<and> request_url (getRecrawlTasks userId hostId (Num 0) off) =
     request_url (getRecrawlTasks userId hostId Undefined off)
   \<and> request_url (getRecrawlTasks userId hostId lim (Num 0)) =
     request_url (getRecrawlTasks userId hostId lim Undefined)
   \<and> request_url (getInternalLinks userId hostId (Num 0) off) =
     request_url (getInternalLinks userId hostId Undefined off)
   \<and> request_url (getInternalLinks userId hostId lim (Num 0)) =
     request_url (getInternalLinks userId hostId lim Undefined)
   \<and> request_url (getExternalLinks userId hostId (Num 0) off) =
     request_url (getExternalLinks userId hostId Undefined off)
   \<and> request_url (getExternalLinks userId hostId lim (Num 0)) =
     request_url (getExternalLinks userId hostId lim Undefined)
   \<and> ''limit'' \<notin> set (map fst (popular_query_params (with_field ''limit'' (Num 0) params)))
   \<and> ''offset'' \<notin> set (map fst (popular_query_params (with_field ''offset'' (Num 0) params)))
   \<and> ''limit'' \<notin> set (map fst (paging_params (Num 0) off))
   \<and> ''offset'' \<notin> set (map fst (paging_params lim (Num 0)))
   \<and> paging_suffix (Num 0) (Num 0) = []"
proof -
  have s: "paging_suffix (Num 0) off = paging_suffix Undefined off"
    "paging_suffix lim (Num 0) = paging_suffix lim Undefined"
    by (simp_all add: paging_suffix_def paging_zero_limit paging_zero_offset)
  have e: "paging_suffix (Num 0) (Num 0) = []"
    by (simp add: paging_suffix_def paging_params_def set_if_truthy_zero URLSearchParams_toString_def)
  have urls:
    "request_url (getPopularQueries userId hostId (with_field ''limit'' (Num 0) params)) =
       request_url (getPopularQueries userId hostId (without_field ''limit'' params))"
    "request_url (getPopularQueries userId hostId (with_field ''limit'' (Num 0) params)) =
       request_url (getPopularQueries userId hostId (with_field ''limit'' Undefined params))"
    "request_url (getPopularQueries userId hostId (with_field ''offset'' (Num 0) params)) =
       request_url (getPopularQueries userId hostId (without_field ''offset'' params))"
    "request_url (getPopularQueries userId hostId (with_field ''offset'' (Num 0) params)) =
       request_url (getPopularQueries userId hostId (with_field ''offset'' Undefined params))"
    "request_url (getIndexingSamples userId hostId (Num 0) off) =
       request_url (getIndexingSamples userId hostId Undefined off)"
    "request_url (getIndexingSamples userId hostId lim (Num 0)) =
       request_url (getIndexingSamples userId hostId lim Undefined)"
    "request_url (getRecrawlTasks userId hostId (Num 0) off) =
       request_url (getRecrawlTasks userId hostId Undefined off)"
    "request_url (getRecrawlTasks userId hostId lim (Num 0)) =
       request_url (getRecrawlTasks userId hostId lim Undefined)"
    "request_url (getInternalLinks userId hostId (Num 0) off) =
       request_url (getInternalLinks userId hostId Undefined off)"
    "request_url (getInternalLinks userId hostId lim (Num 0)) =
       request_url (getInternalLinks userId hostId lim Undefined)"
    "request_url (getExternalLinks userId hostId (Num 0) off) =
       request_url (getExternalLinks userId hostId Undefined off)"
    "request_url (getExternalLinks userId hostId lim (Num 0)) =
       request_url (getExternalLinks userId hostId lim Undefined)"
    unfolding request_url.simps popular_zero_limit popular_zero_offset s by (rule refl)+
  show ?thesis
    by (intro conjI urls popular_no_limit_key popular_no_offset_key paging_no_limit_key
        paging_no_offset_key e)
qed

subsection \<open>Identifiers in the path\<close>

text \<open>
  Claim C10. The host URL is the base URL followed by \<open>/user/\<close>, the user id,
  \<open>/hosts/\<close>, the host id and the path, concatenated as they are: the identifiers are
  not encoded or escaped. Hence an identifier with a character that means something in a
  URL changes which resource is addressed: the host information of host \<open>a/summary\<close> is
  requested at the URL of the indexing summary of host \<open>a\<close>; user \<open>1/hosts/2\<close> with host
  \<open>3\<close> and user \<open>1\<close> with host \<open>2/hosts/3\<close> are requested at one URL; and the \<open>?\<close> of
  host \<open>a?b\<close> ends the path, leaving \<open>b/summary\<close> as the query.
\<close>

theorem hostUrl_concatenates_raw_identifiers:
  "hostUrl (Str userId) (Str hostId) path =
     ''https://api.webmaster.yandex.net/v4/user/'' @ userId @ ''/hosts/'' @ hostId @ path
   \<and> request_url (getHostInfo (Str ''1'') (Str ''a/summary'')) =
     request_url (getIndexingSummary (Str ''1'') (Str ''a''))
   \<and> request_url (getHostInfo (Str ''1/hosts/2'') (Str ''3'')) =
     request_url (getHostInfo (Str ''1'') (Str ''2/hosts/3''))
   \<and> request_url (getIndexingSummary (Str ''1'') (Str ''a?b'')) =
     ''https://api.webmaster.yandex.net/v4/user/1/hosts/a?b/summary''"
  by (simp add: hostUrl_def API_BASE_def)

end
